theory Spec2Isabelle
  imports Main "HOL-Library.Multiset" "HOL-Library.Option_ord"
begin

section \<open>MediaGoblin's database models (mediagoblin/db/models.py)\<close>

text \<open>
  The module declares three mongokit documents (User, MediaEntry, MediaComment) and a
  few accessor methods that query the document database. A document is a record
  holding one field for each key of the class's \<open>structure\<close>, with the field's type
  taken from there; a field that has no value holds \<open>None\<close>, as the skeleton that
  mongokit generates for a new document does, and a document of the store was saved
  from such a skeleton, so that it holds every key. The key \<open>_id\<close> is not part of any
  \<open>structure\<close>: a document has it once the store (or the caller) has assigned one,
  and reading it before then raises KeyError.
\<close>

subsection \<open>Values\<close>

type_synonym ObjectId = nat
  \<comment> \<open>identifiers of the store; only their order and equality are used\<close>

type_synonym datetime = int
  \<comment> \<open>a point in time, as a count of ticks\<close>

text \<open>The values a document field can hold, and the types a \<open>structure\<close> names.\<close>

datatype val =
    V_unicode string
  | V_datetime datetime
  | V_bool bool
  | V_ObjectId ObjectId
  | V_int int
  | V_dict "(string \<times> val) list"
  | V_list "val list"

datatype ftype =
    T_unicode
  | T_datetime
  | T_dict
  | T_bool
  | T_ObjectId
  | T_list
  | T_list_of ftype

datatype error = KeyError | TypeError | IndexError | ValidationError

subsection \<open>The three documents\<close>

record User =
  u_id :: "ObjectId option"
  u_username :: "string option"
  u_email :: "string option"
  u_created :: "datetime option"
  u_plugin_data :: "(string \<times> val) list"
  u_pw_hash :: "string option"
  u_email_verified :: "bool option"
  u_status :: "string option"
  u_verification_key :: "string option"
  u_is_admin :: "bool option"
  u_url :: "string option"
  u_bio :: "string option"
  u_bio_html :: "string option"

record MediaEntry =
  me_id :: "ObjectId option"
  me_uploader :: "ObjectId option"
  me_title :: "string option"
  me_slug :: "string option"
  me_created :: "datetime option"
  me_description :: "string option"
  me_description_html :: "string option"
  me_media_type :: "string option"
  me_media_data :: "(string \<times> val) list"
  me_plugin_data :: "(string \<times> val) list"
  me_tags :: "string list"
  me_state :: "string option"
  me_queued_media_file :: "string list"
  me_media_files :: "(string \<times> val) list"
  me_attachment_files :: "val list"
  me_thumbnail_file :: "string list"

record MediaComment =
  mc_id :: "ObjectId option"
  mc_media_entry :: "ObjectId option"
  mc_author :: "ObjectId option"
  mc_created :: "datetime option"
  mc_content :: "string option"
  mc_content_html :: "string option"

text \<open>
  The store: one collection for each model, in the store's natural order. The methods
  reach it as \<open>self.db\<close> or as \<open>mg_globals.database\<close>; in the model it is the
  parameter \<open>db\<close>.
\<close>

record database =
  users :: "User list"
  media_entries :: "MediaEntry list"
  media_comments :: "MediaComment list"

subsection \<open>MediaEntry.get_display_media\<close>

text \<open>
  \<^verbatim>\<open>
  def get_display_media(self, media_map, fetch_order=DISPLAY_IMAGE_FETCHING_ORDER):
      media_sizes = media_map.keys()
      for media_size in DISPLAY_IMAGE_FETCHING_ORDER:
          if media_size in media_sizes:
              return media_map[media_size]
  \<close>
  The constant \<open>DISPLAY_IMAGE_FETCHING_ORDER\<close> is imported from \<open>mediagoblin.util\<close>; it
  is the first parameter of the model. The loop runs over the constant, and what it
  returns is the value stored under the size, not a pair. Falling off the end of the
  loop returns Python's \<open>None\<close>.
\<close>

fun display_media_loop :: "(string \<rightharpoonup> 'p) \<Rightarrow> string list \<Rightarrow> 'p option" where
  "display_media_loop media_map [] = None"
| "display_media_loop media_map (media_size # rest) =
     (if media_map media_size \<noteq> None then media_map media_size
      else display_media_loop media_map rest)"

definition get_display_media ::
  "string list \<Rightarrow> MediaEntry \<Rightarrow> (string \<rightharpoonup> 'p) \<Rightarrow> string list \<Rightarrow> 'p option" where
  "get_display_media DISPLAY_IMAGE_FETCHING_ORDER self media_map fetch_order =
     display_media_loop media_map DISPLAY_IMAGE_FETCHING_ORDER"

text \<open>
  What the docstring and the specification describe: the sizes are tried in the order
  of \<open>fetch_order\<close>, and the result is the pair of the size and its path.
\<close>

fun get_display_media_spec ::
  "(string \<rightharpoonup> 'p) \<Rightarrow> string list \<Rightarrow> (string \<times> 'p) option" where
  "get_display_media_spec media_map [] = None"
| "get_display_media_spec media_map (media_size # rest) =
     (case media_map media_size of
        Some path \<Rightarrow> Some (media_size, path)
      | None \<Rightarrow> get_display_media_spec media_map rest)"

subsection \<open>Queries on a collection\<close>

text \<open>
  \<open>find_one\<close> returns the first document that matches, or \<open>None\<close>. \<open>find\<close> returns a
  cursor: the matching documents, which \<open>sort\<close> orders and \<open>limit\<close> bounds. The store
  does not say in which order documents with equal keys come; the model keeps them
  in the store's order, in both directions.
  \<open>count\<close> is the number of matching documents (pymongo's default leaves the limit
  out of the count), and \<open>cursor[0]\<close> is the first document in the cursor's order,
  IndexError when there is none.
\<close>

fun find_one :: "('a \<Rightarrow> bool) \<Rightarrow> 'a list \<Rightarrow> 'a option" where
  "find_one matches [] = None"
| "find_one matches (d # ds) = (if matches d then Some d else find_one matches ds)"

record 'a cursor =
  c_docs :: "'a list"
  c_limit :: "nat option"

datatype direction = ASCENDING | DESCENDING

definition find_cursor :: "('a \<Rightarrow> bool) \<Rightarrow> 'a list \<Rightarrow> 'a cursor" where
  "find_cursor matches coll = \<lparr>c_docs = filter matches coll, c_limit = None\<rparr>"

fun sort_docs :: "('a \<Rightarrow> 'k::linorder) \<Rightarrow> direction \<Rightarrow> 'a list \<Rightarrow> 'a list" where
  "sort_docs key ASCENDING ds = sort_key key ds"
| "sort_docs key DESCENDING ds = rev (sort_key key (rev ds))"

definition sort_cursor :: "('a \<Rightarrow> 'k::linorder) \<Rightarrow> direction \<Rightarrow> 'a cursor \<Rightarrow> 'a cursor" where
  "sort_cursor key dir c = c\<lparr>c_docs := sort_docs key dir (c_docs c)\<rparr>"

definition limit :: "nat \<Rightarrow> 'a cursor \<Rightarrow> 'a cursor" where
  "limit n c = c\<lparr>c_limit := Some n\<rparr>"

definition count :: "'a cursor \<Rightarrow> nat" where
  "count c = length (c_docs c)"

definition cursor_first :: "'a cursor \<Rightarrow> error + 'a" where
  "cursor_first c = (case c_docs c of [] \<Rightarrow> Inl IndexError | d # _ \<Rightarrow> Inr d)"

definition fetch :: "'a cursor \<Rightarrow> 'a list" where
  "fetch c = (case c_limit c of None \<Rightarrow> c_docs c | Some n \<Rightarrow> take n (c_docs c))"

text \<open>
  The query operators \<open>$gt\<close> and \<open>$lt\<close> on an identifier: a document without the
  field matches neither.
\<close>

fun field_gt :: "ObjectId option \<Rightarrow> ObjectId \<Rightarrow> bool" where
  "field_gt None i = False"
| "field_gt (Some j) i = (i < j)"

fun field_lt :: "ObjectId option \<Rightarrow> ObjectId \<Rightarrow> bool" where
  "field_lt None i = False"
| "field_lt (Some j) i = (j < i)"

text \<open>Python's \<open>unicode(x)\<close> on a field that holds a string or \<open>None\<close>.\<close>

fun unicode :: "string option \<Rightarrow> string" where
  "unicode None = ''None''"
| "unicode (Some s) = s"

subsection \<open>User.check_login\<close>

text \<open>
  Modelled from the spec: \<open>auth_lib.bcrypt_check_password\<close>, the hash-and-compare
  operation of the password hashing service (mediagoblin/auth/lib.py is not among the
  sources). The hashing scheme is the parameter \<open>hashpw\<close>: a salted, cost-factored
  one-way function of a password and a setting, where the setting is a salt with its
  cost or an earlier hash, which carries them. The candidate is hashed under the
  setting that the stored hash carries and the result is compared with the stored
  hash: the answer is true or false. Without a stored hash there is nothing to hash
  under, and the call raises.
\<close>

definition bcrypt_check_password ::
  "(string \<Rightarrow> string \<Rightarrow> string) \<Rightarrow> string \<Rightarrow> string option \<Rightarrow> error + bool" where
  "bcrypt_check_password hashpw raw_pass stored_hash =
     (case stored_hash of
        None \<Rightarrow> Inl TypeError
      | Some h \<Rightarrow> Inr (hashpw raw_pass h = h))"

text \<open>
  \<^verbatim>\<open>
  def check_login(self, password):
      return auth_lib.bcrypt_check_password(password, self['pw_hash'])
  \<close>
  The method returns the answer together with the user and the store as it leaves
  them.
\<close>

definition check_login ::
  "(string \<Rightarrow> string \<Rightarrow> string) \<Rightarrow> database \<Rightarrow> User \<Rightarrow> string
     \<Rightarrow> (error + bool) \<times> User \<times> database" where
  "check_login hashpw db self password =
     (bcrypt_check_password hashpw password (u_pw_hash self), self, db)"

subsection \<open>MediaEntry.get_comments\<close>

text \<open>
  \<^verbatim>\<open>
  def get_comments(self):
      return self.db.MediaComment.find({
              'media_entry': self['_id']}).sort('created', DESCENDING)
  \<close>
  The result is the sequence of documents the cursor yields.
\<close>

definition get_comments :: "database \<Rightarrow> MediaEntry \<Rightarrow> error + MediaComment list" where
  "get_comments db self =
     (case me_id self of
        None \<Rightarrow> Inl KeyError
      | Some i \<Rightarrow>
          Inr (fetch (sort_cursor mc_created DESCENDING
                 (find_cursor (\<lambda>c. mc_media_entry c = Some i) (media_comments db)))))"

subsection \<open>MediaEntry.generate_slug\<close>

text \<open>
  \<^verbatim>\<open>
  def generate_slug(self):
      self['slug'] = util.slugify(self['title'])
      duplicate = mg_globals.database.media_entries.find_one(
          {'slug': self['slug']})
      if duplicate:
          self['slug'] = "%s-%s" % (self['_id'], self['slug'])
  \<close>
  \<open>util.slugify\<close> is not among the sources: it is a parameter, a function from the
  title to a slug that may raise. So is the text form of an identifier, which
  \<open>%s\<close> produces. The method mutates \<open>self\<close>; the model returns how the call ended
  (an exception or a plain return), \<open>self\<close> as the call leaves it, and the store. A
  document that \<open>find_one\<close> returns holds at least its \<open>_id\<close>, so it is true in the
  test of the \<open>if\<close>.
\<close>

definition generate_slug ::
  "(string option \<Rightarrow> error + string) \<Rightarrow> (ObjectId \<Rightarrow> string) \<Rightarrow> database \<Rightarrow> MediaEntry
     \<Rightarrow> (error + unit) \<times> MediaEntry \<times> database" where
  "generate_slug slugify str_id db self =
     (case slugify (me_title self) of
        Inl err \<Rightarrow> (Inl err, self, db)
      | Inr slug \<Rightarrow>
          (let self1 = self\<lparr>me_slug := Some slug\<rparr>;
               duplicate = find_one (\<lambda>d. me_slug d = me_slug self1) (media_entries db)
           in case duplicate of
                None \<Rightarrow> (Inr (), self1, db)
              | Some d \<Rightarrow>
                  (case me_id self1 of
                     None \<Rightarrow> (Inl KeyError, self1, db)
                   | Some i \<Rightarrow>
                       (Inr (), self1\<lparr>me_slug := Some (str_id i @ ''-'' @ slug)\<rparr>, db))))"

subsection \<open>MediaEntry.uploader, url_to_prev, url_to_next\<close>

text \<open>
  \<^verbatim>\<open>
  def uploader(self):
      return self.db.User.find_one({'_id': self['uploader']})
  \<close>
\<close>

definition uploader :: "database \<Rightarrow> MediaEntry \<Rightarrow> User option" where
  "uploader db self = find_one (\<lambda>u. u_id u = me_uploader self) (users db)"

text \<open>
  \<^verbatim>\<open>
  def url_to_prev(self, urlgen):
      cursor = self.db.MediaEntry.find({'_id' : {"$gt": self['_id']},
                                        'uploader': self['uploader'],
                                        'state': 'processed'}).sort(
                                                  '_id', ASCENDING).limit(1)
      if cursor.count():
          return urlgen('mediagoblin.user_pages.media_home',
                        user=self.uploader()['username'],
                        media=unicode(cursor[0]['slug']))
  \<close>
  \<open>urlgen\<close> is the caller's URL generator: it takes the route name and the keyword
  arguments \<open>user\<close> and \<open>media\<close>. Subscripting the \<open>None\<close> that \<open>uploader\<close> returns for
  a missing user raises TypeError. Without a match the method returns \<open>None\<close>.
\<close>

definition url_to_prev ::
  "(string \<Rightarrow> string option \<Rightarrow> string \<Rightarrow> 'url) \<Rightarrow> database \<Rightarrow> MediaEntry
     \<Rightarrow> error + 'url option" where
  "url_to_prev urlgen db self =
     (case me_id self of
        None \<Rightarrow> Inl KeyError
      | Some i \<Rightarrow>
          (let cursor = limit 1 (sort_cursor me_id ASCENDING
                 (find_cursor (\<lambda>d. field_gt (me_id d) i
                                  \<and> me_uploader d = me_uploader self
                                  \<and> me_state d = Some ''processed'')
                    (media_entries db)))
           in if count cursor \<noteq> 0 then
                (case uploader db self of
                   None \<Rightarrow> Inl TypeError
                 | Some u \<Rightarrow>
                     (case cursor_first cursor of
                        Inl err \<Rightarrow> Inl err
                      | Inr d \<Rightarrow>
                          Inr (Some (urlgen ''mediagoblin.user_pages.media_home''
                                       (u_username u) (unicode (me_slug d))))))
              else Inr None))"

text \<open>
  \<open>url_to_next\<close> is the same method with \<open>$lt\<close> for \<open>$gt\<close> and DESCENDING for
  ASCENDING.
\<close>

definition url_to_next ::
  "(string \<Rightarrow> string option \<Rightarrow> string \<Rightarrow> 'url) \<Rightarrow> database \<Rightarrow> MediaEntry
     \<Rightarrow> error + 'url option" where
  "url_to_next urlgen db self =
     (case me_id self of
        None \<Rightarrow> Inl KeyError
      | Some i \<Rightarrow>
          (let cursor = limit 1 (sort_cursor me_id DESCENDING
                 (find_cursor (\<lambda>d. field_lt (me_id d) i
                                  \<and> me_uploader d = me_uploader self
                                  \<and> me_state d = Some ''processed'')
                    (media_entries db)))
           in if count cursor \<noteq> 0 then
                (case uploader db self of
                   None \<Rightarrow> Inl TypeError
                 | Some u \<Rightarrow>
                     (case cursor_first cursor of
                        Inl err \<Rightarrow> Inl err
                      | Inr d \<Rightarrow>
                          Inr (Some (urlgen ''mediagoblin.user_pages.media_home''
                                       (u_username u) (unicode (me_slug d))))))
              else Inr None))"

subsection \<open>MediaComment.media_entry, author\<close>

text \<open>
  \<^verbatim>\<open>
  def media_entry(self):
      return self.db.MediaEntry.find_one({'_id': self['media_entry']})

  def author(self):
      return self.db.User.find_one({'_id': self['author']})
  \<close>
\<close>

definition media_entry :: "database \<Rightarrow> MediaComment \<Rightarrow> MediaEntry option" where
  "media_entry db self = find_one (\<lambda>d. me_id d = mc_media_entry self) (media_entries db)"

definition author :: "database \<Rightarrow> MediaComment \<Rightarrow> User option" where
  "author db self = find_one (\<lambda>u. u_id u = mc_author self) (users db)"

subsection \<open>Schemas: structure, required fields, default values\<close>

text \<open>
  Each model declares the fields it knows with their types (\<open>structure\<close>), the fields
  that must be present (\<open>required_fields\<close>) and the defaults (\<open>default_values\<close>). A
  default is a constant or a function of no arguments that is called when the document
  is created: \<open>datetime.datetime.utcnow\<close>, and \<open>lambda: unicode(uuid.uuid4())\<close>.
\<close>

datatype default_value =
    Constant val
  | utcnow
  | uuid4_unicode

record schema =
  structure_of :: "(string \<times> ftype) list"
  required_fields :: "string list"
  default_values :: "(string \<times> default_value) list"

definition User_schema :: schema where
  "User_schema = \<lparr>
     structure_of = [
       (''username'', T_unicode),
       (''email'', T_unicode),
       (''created'', T_datetime),
       (''plugin_data'', T_dict),
       (''pw_hash'', T_unicode),
       (''email_verified'', T_bool),
       (''status'', T_unicode),
       (''verification_key'', T_unicode),
       (''is_admin'', T_bool),
       (''url'', T_unicode),
       (''bio'', T_unicode),
       (''bio_html'', T_unicode)],
     required_fields = [''username'', ''created'', ''pw_hash'', ''email''],
     default_values = [
       (''created'', utcnow),
       (''email_verified'', Constant (V_bool False)),
       (''status'', Constant (V_unicode ''needs_email_verification'')),
       (''verification_key'', uuid4_unicode),
       (''is_admin'', Constant (V_bool False))]\<rparr>"

definition MediaEntry_schema :: schema where
  "MediaEntry_schema = \<lparr>
     structure_of = [
       (''uploader'', T_ObjectId),
       (''title'', T_unicode),
       (''slug'', T_unicode),
       (''created'', T_datetime),
       (''description'', T_unicode),
       (''description_html'', T_unicode),
       (''media_type'', T_unicode),
       (''media_data'', T_dict),
       (''plugin_data'', T_dict),
       (''tags'', T_list_of T_unicode),
       (''state'', T_unicode),
       (''queued_media_file'', T_list_of T_unicode),
       (''media_files'', T_dict),
       (''attachment_files'', T_list),
       (''thumbnail_file'', T_list_of T_unicode)],
     required_fields = [''uploader'', ''created'', ''media_type'', ''slug''],
     default_values = [
       (''created'', utcnow),
       (''state'', Constant (V_unicode ''unprocessed''))]\<rparr>"

definition MediaComment_schema :: schema where
  "MediaComment_schema = \<lparr>
     structure_of = [
       (''media_entry'', T_ObjectId),
       (''author'', T_ObjectId),
       (''created'', T_datetime),
       (''content'', T_unicode),
       (''content_html'', T_unicode)],
     required_fields = [''media_entry'', ''author'', ''created'', ''content''],
     default_values = [(''created'', utcnow)]\<rparr>"

subsection \<open>Creating a document\<close>

text \<open>
  Creation and validation are mongokit's and are not among the sources; they are
  modelled from the specification. What the providers return when a document is
  created is an input: the clock's reading and the token that \<open>uuid.uuid4()\<close> draws.
\<close>

record providers =
  now :: datetime
  uuid4 :: string

text \<open>
  Modelled from the spec: a default-value provider is a constant, or a function of no
  arguments evaluated at creation time.
\<close>

fun default_of :: "providers \<Rightarrow> default_value \<Rightarrow> val" where
  "default_of env (Constant v) = v"
| "default_of env utcnow = V_datetime (now env)"
| "default_of env uuid4_unicode = V_unicode (uuid4 env)"

text \<open>
  Modelled from the spec: the semantic type of a field, against which a value is
  mistyped or not.
\<close>

fun has_type :: "ftype \<Rightarrow> val \<Rightarrow> bool" where
  "has_type T_unicode v = (case v of V_unicode _ \<Rightarrow> True | _ \<Rightarrow> False)"
| "has_type T_datetime v = (case v of V_datetime _ \<Rightarrow> True | _ \<Rightarrow> False)"
| "has_type T_dict v = (case v of V_dict _ \<Rightarrow> True | _ \<Rightarrow> False)"
| "has_type T_bool v = (case v of V_bool _ \<Rightarrow> True | _ \<Rightarrow> False)"
| "has_type T_ObjectId v = (case v of V_ObjectId _ \<Rightarrow> True | _ \<Rightarrow> False)"
| "has_type T_list v = (case v of V_list _ \<Rightarrow> True | _ \<Rightarrow> False)"
| "has_type (T_list_of t) v = (case v of V_list vs \<Rightarrow> list_all (has_type t) vs | _ \<Rightarrow> False)"

text \<open>
  Modelled from the spec: a field of a field set is accepted when the schema knows it
  and its value has the declared type (unknown fields fail validation).
\<close>

definition field_ok :: "schema \<Rightarrow> string \<times> val \<Rightarrow> bool" where
  "field_ok sch kv =
     (case map_of (structure_of sch) (fst kv) of
        None \<Rightarrow> False
      | Some t \<Rightarrow> has_type t (snd kv))"

text \<open>
  Modelled from the spec: unspecified fields take their declared defaults. A field set
  gives values to some fields, as the list of its items.
\<close>

definition with_defaults :: "providers \<Rightarrow> schema \<Rightarrow> (string \<times> val) list \<Rightarrow> (string \<times> val) list" where
  "with_defaults env sch supplied =
     supplied @ map (\<lambda>kd. (fst kd, default_of env (snd kd)))
                (filter (\<lambda>kd. map_of supplied (fst kd) = None) (default_values sch))"

text \<open>
  Modelled from the spec: the creation of a record, which fails with ValidationError
  when a required field is absent from the record, when a field is mistyped, and when
  a field is not in the schema.
\<close>

definition create :: "providers \<Rightarrow> schema \<Rightarrow> (string \<times> val) list \<Rightarrow> error + (string \<times> val) list" where
  "create env sch supplied =
     (let doc = with_defaults env sch supplied
      in if list_ex (\<lambda>r. map_of doc r = None) (required_fields sch)
            \<or> list_ex (\<lambda>kv. \<not> field_ok sch kv) doc
         then Inl ValidationError
         else Inr doc)"

subsection \<open>Sample data\<close>

text \<open>
  Documents and collaborators for the examples below: an entry, a user and a comment
  with the given identifiers, a slugify that is right on titles that are slugs
  already, identifiers printed in decimal, and a hashing scheme that writes the salt of
  its setting, a dollar sign and the password backwards.
\<close>

definition sample_entry :: "ObjectId \<Rightarrow> ObjectId \<Rightarrow> string \<Rightarrow> string \<Rightarrow> MediaEntry" where
  "sample_entry i u name st = \<lparr>
     me_id = Some i, me_uploader = Some u, me_title = Some name, me_slug = Some name,
     me_created = Some 0, me_description = None, me_description_html = None,
     me_media_type = Some ''image'', me_media_data = [], me_plugin_data = [], me_tags = [],
     me_state = Some st, me_queued_media_file = [], me_media_files = [],
     me_attachment_files = [], me_thumbnail_file = []\<rparr>"

definition sample_user :: "ObjectId \<Rightarrow> string \<Rightarrow> string \<Rightarrow> User" where
  "sample_user i name h = \<lparr>
     u_id = Some i, u_username = Some name, u_email = Some ''user@example.org'',
     u_created = Some 0, u_plugin_data = [], u_pw_hash = Some h,
     u_email_verified = Some False, u_status = Some ''needs_email_verification'',
     u_verification_key = None, u_is_admin = Some False, u_url = None, u_bio = None,
     u_bio_html = None\<rparr>"

definition sample_comment :: "ObjectId \<Rightarrow> ObjectId \<Rightarrow> ObjectId \<Rightarrow> datetime \<Rightarrow> MediaComment" where
  "sample_comment i m a t = \<lparr>
     mc_id = Some i, mc_media_entry = Some m, mc_author = Some a, mc_created = Some t,
     mc_content = Some ''nice'', mc_content_html = None\<rparr>"

definition sample_slugify :: "string option \<Rightarrow> error + string" where
  "sample_slugify title = (case title of None \<Rightarrow> Inl TypeError | Some s \<Rightarrow> Inr s)"

fun sample_str_id :: "ObjectId \<Rightarrow> string" where
  "sample_str_id i =
     (if i < 10 then [''0123456789'' ! i]
      else sample_str_id (i div 10) @ [''0123456789'' ! (i mod 10)])"

definition sample_urlgen :: "string \<Rightarrow> string option \<Rightarrow> string \<Rightarrow> string" where
  "sample_urlgen route user media = ''/u/'' @ unicode user @ ''/m/'' @ media @ ''/''"

definition sample_hashpw :: "string \<Rightarrow> string \<Rightarrow> string" where
  "sample_hashpw password setting =
     takeWhile (\<lambda>c. c \<noteq> CHR ''$'') setting @ ''$'' @ rev password"

definition sample_db :: database where
  "sample_db = \<lparr>
     users = [sample_user 10 ''alice'' ''ab$terces'', sample_user 11 ''bob'' ''cd$drowssap''],
     media_entries = [
       sample_entry 1 10 ''one'' ''processed'',
       sample_entry 2 10 ''two'' ''processed'',
       sample_entry 3 10 ''three'' ''processed'',
       sample_entry 4 10 ''four'' ''unprocessed'',
       sample_entry 5 11 ''five'' ''processed''],
     media_comments = [
       sample_comment 21 2 10 200,
       sample_comment 22 2 10 100,
       sample_comment 23 2 10 300,
       sample_comment 24 3 11 150]\<rparr>"

definition sample_providers :: providers where
  "sample_providers = \<lparr>now = 1000, uuid4 = ''6fa459ea-ee8a-3ca4-894e-db77e160355e''\<rparr>"

subsection \<open>Vocabulary of the properties\<close>

text \<open>
  The entries that the navigation links are about: \<open>later_processed e i d\<close> says that
  \<open>d\<close> is a processed entry of the uploader of \<open>e\<close> whose identifier is strictly
  greater than \<open>i\<close>, \<open>earlier_processed\<close> that it is strictly less. \<open>media_home_url\<close>
  is what both methods return once they have found the entry \<open>x\<close> to link to.
\<close>

definition later_processed :: "MediaEntry \<Rightarrow> ObjectId \<Rightarrow> MediaEntry \<Rightarrow> bool" where
  "later_processed e i d \<longleftrightarrow>
     (case me_id d of None \<Rightarrow> False | Some j \<Rightarrow> i < j)
     \<and> me_uploader d = me_uploader e \<and> me_state d = Some ''processed''"

definition earlier_processed :: "MediaEntry \<Rightarrow> ObjectId \<Rightarrow> MediaEntry \<Rightarrow> bool" where
  "earlier_processed e i d \<longleftrightarrow>
     (case me_id d of None \<Rightarrow> False | Some j \<Rightarrow> j < i)
     \<and> me_uploader d = me_uploader e \<and> me_state d = Some ''processed''"

definition media_home_url ::
  "(string \<Rightarrow> string option \<Rightarrow> string \<Rightarrow> 'url) \<Rightarrow> database \<Rightarrow> MediaEntry \<Rightarrow> MediaEntry
     \<Rightarrow> error + 'url option" where
  "media_home_url urlgen db e x =
     (case uploader db e of
        None \<Rightarrow> Inl TypeError
      | Some u \<Rightarrow>
          Inr (Some (urlgen ''mediagoblin.user_pages.media_home''
                       (u_username u) (unicode (me_slug x)))))"

text \<open>
  The duplicate check as the specification words it, leaving out the entry itself:
  \<open>generate_slug\<close> with that one change.
\<close>

definition generate_slug_excluding_self ::
  "(string option \<Rightarrow> error + string) \<Rightarrow> (ObjectId \<Rightarrow> string) \<Rightarrow> database \<Rightarrow> MediaEntry
     \<Rightarrow> (error + unit) \<times> MediaEntry \<times> database" where
  "generate_slug_excluding_self slugify str_id db self =
     (case slugify (me_title self) of
        Inl err \<Rightarrow> (Inl err, self, db)
      | Inr slug \<Rightarrow>
          (let self1 = self\<lparr>me_slug := Some slug\<rparr>;
               duplicate = find_one (\<lambda>d. me_slug d = me_slug self1 \<and> me_id d \<noteq> me_id self1)
                             (media_entries db)
           in case duplicate of
                None \<Rightarrow> (Inr (), self1, db)
              | Some d \<Rightarrow>
                  (case me_id self1 of
                     None \<Rightarrow> (Inl KeyError, self1, db)
                   | Some i \<Rightarrow>
                       (Inr (), self1\<lparr>me_slug := Some (str_id i @ ''-'' @ slug)\<rparr>, db))))"

section \<open>Properties\<close>

subsection \<open>get_display_media\<close>

lemma display_media_loop_None:
  "display_media_loop m sizes = None \<longleftrightarrow> (\<forall>s \<in> set sizes. m s = None)"
  by (induction sizes) auto

lemma display_media_loop_Some:
  "display_media_loop m sizes = Some p \<Longrightarrow> \<exists>s \<in> set sizes. m s = Some p"
  by (induction sizes) (auto split: if_splits)

text \<open>
  C1. The claim: the method walks \<open>fetch_order\<close> and returns the first pair
  (size, path) whose size is a key of \<open>media_map\<close>. The code walks the module
  constant instead and returns the path alone. With the sizes medium and small
  stored, the fetch orders [small] and [medium] select different entries according
  to the claim, while the code answers both calls alike, whatever the constant is;
  with the constant [medium, small] the call with fetch order [small] returns the
  path of medium, and with any constant it returns a path or nothing.
\<close>

theorem get_display_media_fetch_order_unused:
  "get_display_media D self [''medium'' \<mapsto> [''m.jpg''], ''small'' \<mapsto> [''s.jpg'']] [''small'']
     = get_display_media D self [''medium'' \<mapsto> [''m.jpg''], ''small'' \<mapsto> [''s.jpg'']] [''medium'']
   \<and> get_display_media_spec [''medium'' \<mapsto> [''m.jpg''], ''small'' \<mapsto> [''s.jpg'']] [''small'']
       = Some (''small'', [''s.jpg''])
   \<and> get_display_media_spec [''medium'' \<mapsto> [''m.jpg''], ''small'' \<mapsto> [''s.jpg'']] [''medium'']
       = Some (''medium'', [''m.jpg''])
   \<and> get_display_media [''medium'', ''small''] self
        [''medium'' \<mapsto> [''m.jpg''], ''small'' \<mapsto> [''s.jpg'']] [''small'']
       = Some [''m.jpg'']
   \<and> get_display_media D self [''medium'' \<mapsto> [''m.jpg''], ''small'' \<mapsto> [''s.jpg'']] [''small'']
       \<in> {None, Some [''m.jpg''], Some [''s.jpg'']}"
proof -
  let ?m = "[''medium'' \<mapsto> [''m.jpg''], ''small'' \<mapsto> [''s.jpg'']]"
  have "display_media_loop ?m D \<in> {None, Some [''m.jpg''], Some [''s.jpg'']}"
  proof (cases "display_media_loop ?m D")
    case None
    then show ?thesis by simp
  next
    case (Some p)
    from display_media_loop_Some [OF Some] obtain s where "?m s = Some p" by blast
    then have "p = [''m.jpg''] \<or> p = [''s.jpg'']"
      by (auto split: if_splits)
    with Some show ?thesis by auto
  qed
  then show ?thesis by (simp add: get_display_media_def)
qed

text \<open>
  C10. The result of get_display_media is the same for any two \<open>fetch_order\<close>
  arguments: it is determined by \<open>media_map\<close> and the module constant
  DISPLAY_IMAGE_FETCHING_ORDER alone.
\<close>

theorem get_display_media_independent_of_fetch_order:
  "get_display_media D self media_map o1 = get_display_media D self media_map o2
   \<and> get_display_media D self media_map o1 = display_media_loop media_map D"
  by (simp add: get_display_media_def)

theorem get_display_media_independent_of_fetch_order_witness:
  "get_display_media [''medium'', ''main''] (sample_entry 1 10 ''one'' ''processed'')
      [''main'' \<mapsto> [''dir'', ''image.jpg'']] [''thumb'']
   = get_display_media [''medium'', ''main''] (sample_entry 1 10 ''one'' ''processed'')
      [''main'' \<mapsto> [''dir'', ''image.jpg'']] [''main'', ''medium'']
   \<and> get_display_media [''medium'', ''main''] (sample_entry 1 10 ''one'' ''processed'')
      [''main'' \<mapsto> [''dir'', ''image.jpg'']] [''thumb''] = Some [''dir'', ''image.jpg'']"
  using get_display_media_independent_of_fetch_order
    [of "[''medium'', ''main'']" "sample_entry 1 10 ''one'' ''processed''"
        "[''main'' \<mapsto> [''dir'', ''image.jpg'']]" "[''thumb'']" "[''main'', ''medium'']"]
  by (simp add: get_display_media_def)

subsection \<open>Queries\<close>

lemma find_one_None_iff: "find_one P xs = None \<longleftrightarrow> (\<forall>x\<in>set xs. \<not> P x)"
  by (induction xs) auto

lemma find_one_Some: "find_one P xs = Some x \<Longrightarrow> x \<in> set xs \<and> P x"
  by (induction xs) (auto split: if_splits)

lemma sorted_wrt_rev_sort_key:
  "sorted_wrt (\<lambda>a b. key b \<le> key a) (rev (sort_key key xs))"
proof -
  have "sorted (map key (sort_key key xs))" by simp
  then have "sorted_wrt (\<lambda>a b. key a \<le> key b) (sort_key key xs)"
    by (simp add: sorted_map)
  then show ?thesis by (simp add: sorted_wrt_rev)
qed

lemma sort_key_first_least:
  assumes "sort_key key xs = d # ds"
  shows "d \<in> set xs \<and> (\<forall>y\<in>set xs. key d \<le> key y)"
proof -
  have s: "sorted (map key (d # ds))" using assms sorted_sort_key [of key xs] by simp
  have e: "set (d # ds) = set xs" using assms set_sort [of key xs] by simp
  from s have "\<forall>y\<in>set (d # ds). key d \<le> key y" by auto
  with e show ?thesis by auto
qed

lemma rev_sort_key_first_greatest:
  assumes "rev (sort_key key xs) = d # ds"
  shows "d \<in> set xs \<and> (\<forall>y\<in>set xs. key y \<le> key d)"
proof -
  have s: "sorted_wrt (\<lambda>a b. key b \<le> key a) (d # ds)"
    using assms sorted_wrt_rev_sort_key [of key xs] by simp
  have "set (rev (sort_key key xs)) = set xs" by simp
  then have e: "set (d # ds) = set xs" using assms by simp
  from s have "\<forall>y\<in>set (d # ds). key y \<le> key d" by auto
  with e show ?thesis by auto
qed

lemma sort_key_Nil_iff: "sort_key key xs = [] \<longleftrightarrow> xs = []"
proof -
  have "length (sort_key key xs) = length xs" by simp
  then show ?thesis by (metis length_0_conv)
qed

subsection \<open>MediaComment.media_entry and author\<close>

lemma find_one_finds: "\<exists>x\<in>set xs. P x \<Longrightarrow> \<exists>y. find_one P xs = Some y"
  by (induction xs) auto

text \<open>
  C9. The two lookups of a comment go by the stored identifier. When no record has
  that identifier (the entry or the user was deleted), they return \<open>None\<close>: the result
  is an absent value, and the methods have no path that raises. When some record of
  the collection has that identifier, they return a record; and a record they return
  is a record of the collection with that identifier.
\<close>

theorem MediaComment_references:
  "(\<not> (\<exists>d\<in>set (media_entries db). me_id d = mc_media_entry c) \<longrightarrow> media_entry db c = None)
   \<and> (\<not> (\<exists>u\<in>set (users db). u_id u = mc_author c) \<longrightarrow> author db c = None)
   \<and> ((\<exists>d\<in>set (media_entries db). me_id d = mc_media_entry c) \<longrightarrow>
         (\<exists>d. media_entry db c = Some d))
   \<and> ((\<exists>u\<in>set (users db). u_id u = mc_author c) \<longrightarrow> (\<exists>u. author db c = Some u))
   \<and> (\<forall>d. media_entry db c = Some d \<longrightarrow>
          d \<in> set (media_entries db) \<and> me_id d = mc_media_entry c)
   \<and> (\<forall>u. author db c = Some u \<longrightarrow> u \<in> set (users db) \<and> u_id u = mc_author c)"
proof (intro conjI impI allI)
  assume "\<not> (\<exists>d\<in>set (media_entries db). me_id d = mc_media_entry c)"
  then show "media_entry db c = None"
    by (simp add: media_entry_def find_one_None_iff)
next
  assume "\<not> (\<exists>u\<in>set (users db). u_id u = mc_author c)"
  then show "author db c = None"
    by (simp add: author_def find_one_None_iff)
next
  assume "\<exists>d\<in>set (media_entries db). me_id d = mc_media_entry c"
  then show "\<exists>d. media_entry db c = Some d"
    unfolding media_entry_def by (rule find_one_finds)
next
  assume "\<exists>u\<in>set (users db). u_id u = mc_author c"
  then show "\<exists>u. author db c = Some u"
    unfolding author_def by (rule find_one_finds)
next
  fix d assume "media_entry db c = Some d"
  then show "d \<in> set (media_entries db)" and "me_id d = mc_media_entry c"
    unfolding media_entry_def by (auto dest: find_one_Some)
next
  fix u assume "author db c = Some u"
  then show "u \<in> set (users db)" and "u_id u = mc_author c"
    unfolding author_def by (auto dest: find_one_Some)
qed

theorem MediaComment_references_witness:
  "media_entry sample_db (sample_comment 25 9 12 400) = None
   \<and> author sample_db (sample_comment 25 9 12 400) = None
   \<and> media_entry sample_db (sample_comment 24 3 11 150)
       = Some (sample_entry 3 10 ''three'' ''processed'')
   \<and> author sample_db (sample_comment 24 3 11 150)
       = Some (sample_user 11 ''bob'' ''cd$drowssap'')"
proof -
  have n1: "\<not> (\<exists>d\<in>set (media_entries sample_db).
              me_id d = mc_media_entry (sample_comment 25 9 12 400))"
    by (simp add: sample_db_def sample_entry_def sample_comment_def)
  have n2: "\<not> (\<exists>u\<in>set (users sample_db). u_id u = mc_author (sample_comment 25 9 12 400))"
    by (simp add: sample_db_def sample_user_def sample_comment_def)
  have a: "media_entry sample_db (sample_comment 25 9 12 400) = None"
    using MediaComment_references [of sample_db "sample_comment 25 9 12 400"] n1 by blast
  have b: "author sample_db (sample_comment 25 9 12 400) = None"
    using MediaComment_references [of sample_db "sample_comment 25 9 12 400"] n2 by blast
  have c: "media_entry sample_db (sample_comment 24 3 11 150)
       = Some (sample_entry 3 10 ''three'' ''processed'')"
    by (simp add: media_entry_def sample_db_def sample_entry_def sample_comment_def)
  have d: "author sample_db (sample_comment 24 3 11 150)
       = Some (sample_user 11 ''bob'' ''cd$drowssap'')"
    by (simp add: author_def sample_db_def sample_user_def sample_comment_def)
  from a b c d show ?thesis by (intro conjI)
qed

subsection \<open>MediaEntry.get_comments\<close>

text \<open>
  C5. For an entry with identifier \<open>i\<close>, get_comments returns exactly the comments
  whose \<open>media_entry\<close> is \<open>i\<close> (each as often as the collection holds it), ordered by
  \<open>created\<close> with the newest first. In the example the comments of entry 2, created
  at 200, 100 and 300, come back in the order 300, 200, 100.
\<close>

theorem get_comments_newest_first:
  assumes "me_id e = Some i"
  shows "\<exists>cs. get_comments db e = Inr cs
           \<and> mset cs = mset (filter (\<lambda>c. mc_media_entry c = Some i) (media_comments db))
           \<and> sorted_wrt (\<lambda>a b. mc_created b \<le> mc_created a) cs"
  using assms
  by (simp add: get_comments_def fetch_def sort_cursor_def find_cursor_def
      sorted_wrt_rev_sort_key)

theorem get_comments_newest_first_witness:
  "me_id (sample_entry 2 10 ''two'' ''processed'') = Some 2
   \<and> get_comments sample_db (sample_entry 2 10 ''two'' ''processed'')
       = Inr [sample_comment 23 2 10 300, sample_comment 21 2 10 200,
              sample_comment 22 2 10 100]"
proof -
  have h: "me_id (sample_entry 2 10 ''two'' ''processed'') = Some 2"
    by (simp add: sample_entry_def)
  have "get_comments sample_db (sample_entry 2 10 ''two'' ''processed'')
       = Inr [sample_comment 23 2 10 300, sample_comment 21 2 10 200,
              sample_comment 22 2 10 100]"
    by (simp add: get_comments_def fetch_def sort_cursor_def find_cursor_def sample_db_def
        sample_entry_def sample_comment_def)
  with h get_comments_newest_first [OF h, of sample_db] show ?thesis by simp
qed

subsection \<open>MediaEntry.url_to_prev and url_to_next\<close>

lemma field_gt_iff: "field_gt x i \<longleftrightarrow> (case x of None \<Rightarrow> False | Some j \<Rightarrow> i < j)"
  by (cases x) auto

lemma field_lt_iff: "field_lt x i \<longleftrightarrow> (case x of None \<Rightarrow> False | Some j \<Rightarrow> j < i)"
  by (cases x) auto

lemma url_to_prev_none:
  assumes "me_id e = Some i" and "\<not> (\<exists>d\<in>set (media_entries db). later_processed e i d)"
  shows "url_to_prev urlgen db e = Inr None"
proof -
  have "filter (later_processed e i) (media_entries db) = []"
    using assms(2) by (simp add: filter_empty_conv)
  then show ?thesis using assms(1)
    by (simp add: url_to_prev_def Let_def count_def limit_def sort_cursor_def find_cursor_def
        field_gt_iff later_processed_def [abs_def])
qed

lemma url_to_prev_some:
  assumes "me_id e = Some i" and "\<exists>d\<in>set (media_entries db). later_processed e i d"
  shows "\<exists>x\<in>set (media_entries db). later_processed e i x
           \<and> (\<forall>y\<in>set (media_entries db). later_processed e i y \<longrightarrow> me_id x \<le> me_id y)
           \<and> url_to_prev urlgen db e = media_home_url urlgen db e x"
proof -
  let ?c = "filter (later_processed e i) (media_entries db)"
  have ne: "?c \<noteq> []" using assms(2) by (simp add: filter_empty_conv)
  then have "sort_key me_id ?c \<noteq> []" by (simp add: sort_key_Nil_iff)
  then obtain x xs where sx: "sort_key me_id ?c = x # xs"
    by (cases "sort_key me_id ?c") auto
  from sort_key_first_least [OF sx]
  have x: "x \<in> set ?c" and least: "\<forall>y\<in>set ?c. me_id x \<le> me_id y" by auto
  have "url_to_prev urlgen db e = media_home_url urlgen db e x"
    using assms(1) ne sx
    by (simp add: url_to_prev_def Let_def count_def limit_def sort_cursor_def find_cursor_def
        cursor_first_def media_home_url_def field_gt_iff later_processed_def [abs_def]
        split: option.splits)
  with x least show ?thesis by auto
qed

lemma url_to_next_none:
  assumes "me_id e = Some i" and "\<not> (\<exists>d\<in>set (media_entries db). earlier_processed e i d)"
  shows "url_to_next urlgen db e = Inr None"
proof -
  have "filter (earlier_processed e i) (media_entries db) = []"
    using assms(2) by (simp add: filter_empty_conv)
  then show ?thesis using assms(1)
    by (simp add: url_to_next_def Let_def count_def limit_def sort_cursor_def find_cursor_def
        field_lt_iff earlier_processed_def [abs_def])
qed

lemma url_to_next_some:
  assumes "me_id e = Some i" and "\<exists>d\<in>set (media_entries db). earlier_processed e i d"
  shows "\<exists>x\<in>set (media_entries db). earlier_processed e i x
           \<and> (\<forall>y\<in>set (media_entries db). earlier_processed e i y \<longrightarrow> me_id y \<le> me_id x)
           \<and> url_to_next urlgen db e = media_home_url urlgen db e x"
proof -
  let ?c = "filter (earlier_processed e i) (media_entries db)"
  have ne: "?c \<noteq> []" using assms(2) by (simp add: filter_empty_conv)
  then have "rev (sort_key me_id (rev ?c)) \<noteq> []" by (simp add: sort_key_Nil_iff)
  then obtain x xs where sx: "rev (sort_key me_id (rev ?c)) = x # xs"
    by (cases "rev (sort_key me_id (rev ?c))") auto
  from rev_sort_key_first_greatest [OF sx]
  have x: "x \<in> set ?c" and greatest: "\<forall>y\<in>set ?c. me_id y \<le> me_id x" by auto
  have "url_to_next urlgen db e = media_home_url urlgen db e x"
    using assms(1) ne sx
    by (simp add: url_to_next_def Let_def count_def limit_def sort_cursor_def find_cursor_def
        cursor_first_def media_home_url_def field_lt_iff earlier_processed_def [abs_def]
        split: option.splits)
  with x greatest show ?thesis by auto
qed

text \<open>
  C2. Let \<open>e\<close> have the identifier \<open>i\<close>. url_to_prev looks at the processed entries
  of the uploader of \<open>e\<close> with an identifier strictly greater than \<open>i\<close>: when there
  is none it returns \<open>None\<close>, otherwise it builds the link from one of them whose
  identifier is the smallest. url_to_next does the same with the identifiers strictly
  less than \<open>i\<close> and the largest of them. The link is the URL of the found entry's
  slug under the uploader's name; a missing uploader record makes the call raise.
\<close>

theorem url_to_prev_next_resolution:
  assumes "me_id e = Some i"
  shows "(\<not> (\<exists>d\<in>set (media_entries db). later_processed e i d) \<longrightarrow>
            url_to_prev urlgen db e = Inr None)
       \<and> ((\<exists>d\<in>set (media_entries db). later_processed e i d) \<longrightarrow>
            (\<exists>x\<in>set (media_entries db). later_processed e i x
               \<and> (\<forall>y\<in>set (media_entries db). later_processed e i y \<longrightarrow> me_id x \<le> me_id y)
               \<and> url_to_prev urlgen db e = media_home_url urlgen db e x))
       \<and> (\<not> (\<exists>d\<in>set (media_entries db). earlier_processed e i d) \<longrightarrow>
            url_to_next urlgen db e = Inr None)
       \<and> ((\<exists>d\<in>set (media_entries db). earlier_processed e i d) \<longrightarrow>
            (\<exists>x\<in>set (media_entries db). earlier_processed e i x
               \<and> (\<forall>y\<in>set (media_entries db). earlier_processed e i y \<longrightarrow> me_id y \<le> me_id x)
               \<and> url_to_next urlgen db e = media_home_url urlgen db e x))"
  using url_to_prev_none [OF assms, of db urlgen] url_to_prev_some [OF assms, of db urlgen]
    url_to_next_none [OF assms, of db urlgen] url_to_next_some [OF assms, of db urlgen]
  by (intro conjI impI) assumption+

theorem url_to_prev_next_resolution_witness:
  "me_id (sample_entry 2 10 ''two'' ''processed'') = Some 2
   \<and> url_to_prev sample_urlgen sample_db (sample_entry 2 10 ''two'' ''processed'')
       = Inr (Some ''/u/alice/m/three/'')
   \<and> url_to_next sample_urlgen sample_db (sample_entry 2 10 ''two'' ''processed'')
       = Inr (Some ''/u/alice/m/one/'')
   \<and> url_to_prev sample_urlgen sample_db (sample_entry 3 10 ''three'' ''processed'')
       = Inr None
   \<and> url_to_next sample_urlgen sample_db (sample_entry 1 10 ''one'' ''processed'')
       = Inr None"
proof -
  have h: "me_id (sample_entry 2 10 ''two'' ''processed'') = Some 2"
    by (simp add: sample_entry_def)
  have "url_to_prev sample_urlgen sample_db (sample_entry 2 10 ''two'' ''processed'')
       = Inr (Some ''/u/alice/m/three/'')"
    by (simp add: url_to_prev_def Let_def count_def limit_def sort_cursor_def find_cursor_def
        cursor_first_def uploader_def sample_db_def sample_entry_def sample_user_def
        sample_urlgen_def)
  moreover have "url_to_next sample_urlgen sample_db (sample_entry 2 10 ''two'' ''processed'')
       = Inr (Some ''/u/alice/m/one/'')"
    by (simp add: url_to_next_def Let_def count_def limit_def sort_cursor_def find_cursor_def
        cursor_first_def uploader_def sample_db_def sample_entry_def sample_user_def
        sample_urlgen_def)
  moreover have "url_to_prev sample_urlgen sample_db (sample_entry 3 10 ''three'' ''processed'')
       = Inr None"
    by (simp add: url_to_prev_def Let_def count_def limit_def sort_cursor_def find_cursor_def
        sample_db_def sample_entry_def)
  moreover have "url_to_next sample_urlgen sample_db (sample_entry 1 10 ''one'' ''processed'')
       = Inr None"
    by (simp add: url_to_next_def Let_def count_def limit_def sort_cursor_def find_cursor_def
        sample_db_def sample_entry_def)
  ultimately show ?thesis
    using h url_to_prev_next_resolution [OF h, of sample_db sample_urlgen] by simp
qed

subsection \<open>MediaEntry.generate_slug\<close>

text \<open>
  C3, as the claim states it, fails: the duplicate check does not leave out the entry
  itself. Entry 1 is stored with the slug ''one'' and is the only entry with it;
  generating its slug again finds the stored copy and rewrites the slug to
  ''1-one'', where a check that leaves the entry out keeps ''one''.
\<close>

theorem generate_slug_self_conflict:
  "generate_slug sample_slugify sample_str_id sample_db (sample_entry 1 10 ''one'' ''processed'')
     = (Inr (), (sample_entry 1 10 ''one'' ''processed'')\<lparr>me_slug := Some ''1-one''\<rparr>, sample_db)
   \<and> generate_slug_excluding_self sample_slugify sample_str_id sample_db
        (sample_entry 1 10 ''one'' ''processed'')
     = (Inr (), (sample_entry 1 10 ''one'' ''processed'')\<lparr>me_slug := Some ''one''\<rparr>, sample_db)
   \<and> generate_slug sample_slugify sample_str_id sample_db (sample_entry 1 10 ''one'' ''processed'')
     \<noteq> generate_slug_excluding_self sample_slugify sample_str_id sample_db
         (sample_entry 1 10 ''one'' ''processed'')"
  by (simp add: generate_slug_def generate_slug_excluding_self_def Let_def sample_slugify_def
      sample_db_def sample_entry_def)

text \<open>
  C3, amended. When slugify returns the slug \<open>s\<close> for the title of \<open>e\<close>: if any entry
  of the store has the slug \<open>s\<close>, the stored copy of \<open>e\<close> included, and \<open>e\<close> has the
  identifier \<open>i\<close>, then generate_slug leaves \<open>e\<close> with the slug "i-s"; if no entry
  of the store has the slug \<open>s\<close>, it leaves \<open>e\<close> with the slug \<open>s\<close>.
\<close>

theorem generate_slug_duplicate:
  assumes "slugify (me_title e) = Inr s"
  shows "((\<exists>d\<in>set (media_entries db). me_slug d = Some s) \<and> me_id e = Some i \<longrightarrow>
            generate_slug slugify str_id db e
              = (Inr (), e\<lparr>me_slug := Some (str_id i @ ''-'' @ s)\<rparr>, db))
       \<and> (\<not> (\<exists>d\<in>set (media_entries db). me_slug d = Some s) \<longrightarrow>
            generate_slug slugify str_id db e = (Inr (), e\<lparr>me_slug := Some s\<rparr>, db))"
  using assms
  by (auto simp: generate_slug_def Let_def find_one_None_iff split: option.splits
      dest: find_one_Some)

theorem generate_slug_duplicate_witness:
  "sample_slugify (me_title (sample_entry 7 10 ''two'' ''unprocessed'')) = Inr ''two''
   \<and> generate_slug sample_slugify sample_str_id sample_db
        (sample_entry 7 10 ''two'' ''unprocessed'')
      = (Inr (), (sample_entry 7 10 ''two'' ''unprocessed'')\<lparr>me_slug := Some ''7-two''\<rparr>,
         sample_db)
   \<and> generate_slug sample_slugify sample_str_id sample_db
        (sample_entry 7 10 ''seven'' ''unprocessed'')
      = (Inr (), (sample_entry 7 10 ''seven'' ''unprocessed'')\<lparr>me_slug := Some ''seven''\<rparr>,
         sample_db)"
proof -
  have h: "sample_slugify (me_title (sample_entry 7 10 ''two'' ''unprocessed'')) = Inr ''two''"
    by (simp add: sample_slugify_def sample_entry_def)
  have d: "\<exists>d\<in>set (media_entries sample_db). me_slug d = Some ''two''"
    by (simp add: sample_db_def sample_entry_def)
  have i: "me_id (sample_entry 7 10 ''two'' ''unprocessed'') = Some 7"
    by (simp add: sample_entry_def)
  have s: "sample_str_id 7 @ ''-'' @ ''two'' = ''7-two''"
    by simp
  have "generate_slug sample_slugify sample_str_id sample_db
        (sample_entry 7 10 ''seven'' ''unprocessed'')
      = (Inr (), (sample_entry 7 10 ''seven'' ''unprocessed'')\<lparr>me_slug := Some ''seven''\<rparr>,
         sample_db)"
    by (simp add: generate_slug_def Let_def sample_slugify_def sample_db_def sample_entry_def)
  then show ?thesis
    using h d i s
      generate_slug_duplicate [where slugify = sample_slugify
        and e = "sample_entry 7 10 ''two'' ''unprocessed''" and s = "''two''"
        and db = sample_db and i = 7 and str_id = sample_str_id]
    by simp
qed

text \<open>
  C4. However a call of generate_slug ends, the store it returns is the store it was
  given, and the entry differs from the entry it was given in the slug at most.
\<close>

theorem generate_slug_frame:
  "generate_slug slugify str_id db e = (r, e', db') \<Longrightarrow>
     db' = db \<and> e' = e\<lparr>me_slug := me_slug e'\<rparr>"
  by (auto simp: generate_slug_def Let_def split: sum.splits option.splits)

theorem generate_slug_frame_witness:
  "generate_slug sample_slugify sample_str_id sample_db
        (sample_entry 7 10 ''two'' ''unprocessed'')
      = (Inr (), (sample_entry 7 10 ''two'' ''unprocessed'')\<lparr>me_slug := Some ''7-two''\<rparr>,
         sample_db)
   \<and> (sample_entry 7 10 ''two'' ''unprocessed'')\<lparr>me_slug := Some ''7-two''\<rparr>
      = (sample_entry 7 10 ''two'' ''unprocessed'')
          \<lparr>me_slug := me_slug ((sample_entry 7 10 ''two'' ''unprocessed'')
                                 \<lparr>me_slug := Some ''7-two''\<rparr>)\<rparr>"
proof -
  have h: "generate_slug sample_slugify sample_str_id sample_db
        (sample_entry 7 10 ''two'' ''unprocessed'')
      = (Inr (), (sample_entry 7 10 ''two'' ''unprocessed'')\<lparr>me_slug := Some ''7-two''\<rparr>,
         sample_db)"
    by (simp add: generate_slug_def Let_def sample_slugify_def sample_db_def sample_entry_def)
  from generate_slug_frame [OF h] h show ?thesis by simp
qed

subsection \<open>User.check_login\<close>

lemma sample_hashpw_carries_salt:
  "sample_hashpw a (sample_hashpw b t) = sample_hashpw a t"
proof -
  let ?salt = "takeWhile (\<lambda>c. c \<noteq> CHR ''$'') t"
  have "takeWhile (\<lambda>c. c \<noteq> CHR ''$'') (?salt @ ''$'' @ rev b) = ?salt"
    by (simp add: takeWhile_tail)
  then show ?thesis by (simp add: sample_hashpw_def)
qed

text \<open>
  C8. For every user with a stored hash \<open>h\<close> and every candidate password \<open>p\<close> (any
  string, the empty one included), check_login answers true exactly when \<open>p\<close> matches
  \<open>h\<close> under the hashing scheme, that is, when \<open>p\<close> hashed under the setting of \<open>h\<close>
  is \<open>h\<close>; a wrong password gives the answer false, not an exception, and the user and
  the store are returned as they were given. When a hash carries its setting and \<open>h\<close>
  was produced from the password \<open>p0\<close> under the setting \<open>s\<close>, the password \<open>p0\<close>
  logs in, and a candidate logs in exactly when it hashes under \<open>s\<close> as \<open>p0\<close> does:
  for a scheme without collisions under \<open>s\<close>, exactly when it is \<open>p0\<close>.
\<close>

theorem check_login_matches:
  assumes "u_pw_hash u = Some h"
  shows "check_login hashpw db u p = (Inr (hashpw p h = h), u, db)
       \<and> ((\<forall>a b t. hashpw a (hashpw b t) = hashpw a t) \<and> h = hashpw p0 s \<longrightarrow>
             check_login hashpw db u p0 = (Inr True, u, db)
           \<and> check_login hashpw db u p = (Inr (hashpw p s = hashpw p0 s), u, db))
       \<and> ((\<forall>a b t. hashpw a (hashpw b t) = hashpw a t) \<and> h = hashpw p0 s
            \<and> (\<forall>a b. hashpw a s = hashpw b s \<longrightarrow> a = b) \<longrightarrow>
             (check_login hashpw db u p = (Inr True, u, db) \<longleftrightarrow> p = p0))"
proof -
  have g: "check_login hashpw db u q = (Inr (hashpw q h = h), u, db)" for q
    using assms by (simp add: check_login_def bcrypt_check_password_def)
  have m: "hashpw q h = h \<longleftrightarrow> hashpw q s = hashpw p0 s"
    if "\<forall>a b t. hashpw a (hashpw b t) = hashpw a t" and "h = hashpw p0 s" for q
    using that by simp
  show ?thesis
  proof (intro conjI impI)
    show "check_login hashpw db u p = (Inr (hashpw p h = h), u, db)" by (rule g)
  next
    assume a: "(\<forall>a b t. hashpw a (hashpw b t) = hashpw a t) \<and> h = hashpw p0 s"
    then show "check_login hashpw db u p0 = (Inr True, u, db)"
      using g [of p0] m [of p0] by simp
  next
    assume a: "(\<forall>a b t. hashpw a (hashpw b t) = hashpw a t) \<and> h = hashpw p0 s"
    then show "check_login hashpw db u p = (Inr (hashpw p s = hashpw p0 s), u, db)"
      using g [of p] m [of p] by simp
  next
    assume a: "(\<forall>a b t. hashpw a (hashpw b t) = hashpw a t) \<and> h = hashpw p0 s
               \<and> (\<forall>a b. hashpw a s = hashpw b s \<longrightarrow> a = b)"
    then have "hashpw p h = h \<longleftrightarrow> p = p0"
      using m [of p] by auto
    then show "check_login hashpw db u p = (Inr True, u, db) \<longleftrightarrow> p = p0"
      using g [of p] by simp
  qed
qed

theorem check_login_matches_witness:
  "u_pw_hash (sample_user 10 ''alice'' ''ab$terces'') = Some (sample_hashpw ''secret'' ''ab'')
   \<and> (\<forall>a b t. sample_hashpw a (sample_hashpw b t) = sample_hashpw a t)
   \<and> check_login sample_hashpw sample_db (sample_user 10 ''alice'' ''ab$terces'') ''secret''
     = (Inr True, sample_user 10 ''alice'' ''ab$terces'', sample_db)
   \<and> check_login sample_hashpw sample_db (sample_user 10 ''alice'' ''ab$terces'') []
     = (Inr False, sample_user 10 ''alice'' ''ab$terces'', sample_db)
   \<and> check_login sample_hashpw sample_db (sample_user 10 ''alice'' ''ab$terces'') ''Secret''
     = (Inr False, sample_user 10 ''alice'' ''ab$terces'', sample_db)"
proof -
  have h: "u_pw_hash (sample_user 10 ''alice'' ''ab$terces'')
             = Some (sample_hashpw ''secret'' ''ab'')"
    by (simp add: sample_user_def sample_hashpw_def)
  have c: "\<forall>a b t. sample_hashpw a (sample_hashpw b t) = sample_hashpw a t"
    by (simp add: sample_hashpw_carries_salt)
  have e: "sample_hashpw [] ''ab'' \<noteq> sample_hashpw ''secret'' ''ab''"
    "sample_hashpw ''Secret'' ''ab'' \<noteq> sample_hashpw ''secret'' ''ab''"
    by (simp_all add: sample_hashpw_def)
  have t1: "check_login sample_hashpw sample_db (sample_user 10 ''alice'' ''ab$terces'') ''secret''
     = (Inr True, sample_user 10 ''alice'' ''ab$terces'', sample_db)"
    using c check_login_matches [OF h, where hashpw = sample_hashpw and db = sample_db
        and p = "''secret''" and ?p0.0 = "''secret''" and s = "''ab''"]
    by blast
  have t2: "check_login sample_hashpw sample_db (sample_user 10 ''alice'' ''ab$terces'') q
     = (Inr (sample_hashpw q ''ab'' = sample_hashpw ''secret'' ''ab''),
        sample_user 10 ''alice'' ''ab$terces'', sample_db)" for q
    using c check_login_matches [OF h, where hashpw = sample_hashpw and db = sample_db
        and p = q and ?p0.0 = "''secret''" and s = "''ab''"]
    by blast
  from h c t1 t2 [of "[]"] t2 [of "''Secret''"] e show ?thesis by simp
qed

subsection \<open>Creating a document\<close>

lemma map_of_with_defaults:
  "map_of (with_defaults env sch supplied) k =
     (case map_of supplied k of
        Some v \<Rightarrow> Some v
      | None \<Rightarrow> map_option (default_of env) (map_of (default_values sch) k))"
proof (cases "map_of supplied k")
  case None
  have "map_of (map (\<lambda>kd. (fst kd, default_of env (snd kd)))
                 (filter (\<lambda>kd. map_of supplied (fst kd) = None) ds)) k
        = map_option (default_of env) (map_of ds k)" for ds
    using None by (induction ds) auto
  with None show ?thesis by (simp add: with_defaults_def map_add_def)
next
  case (Some v)
  then show ?thesis by (simp add: with_defaults_def map_add_def)
qed

lemma with_defaults_bad_field:
  assumes "\<forall>kd\<in>set (default_values sch). field_ok sch (fst kd, default_of env (snd kd))"
  shows "list_ex (\<lambda>kv. \<not> field_ok sch kv) (with_defaults env sch supplied)
         \<longleftrightarrow> (\<exists>kv\<in>set supplied. \<not> field_ok sch kv)"
  using assms by (auto simp: with_defaults_def list_ex_iff)

lemma MediaEntry_defaults_ok:
  "\<forall>kd\<in>set (default_values MediaEntry_schema).
     field_ok MediaEntry_schema (fst kd, default_of env (snd kd))"
  by (simp add: MediaEntry_schema_def field_ok_def)

lemma User_defaults_ok:
  "\<forall>kd\<in>set (default_values User_schema).
     field_ok User_schema (fst kd, default_of env (snd kd))"
  by (simp add: User_schema_def field_ok_def)

lemma create_fails_iff:
  assumes "\<forall>kd\<in>set (default_values sch). field_ok sch (fst kd, default_of env (snd kd))"
  shows "create env sch supplied = Inl ValidationError \<longleftrightarrow>
           (\<exists>r\<in>set (required_fields sch). map_of (with_defaults env sch supplied) r = None)
         \<or> (\<exists>kv\<in>set supplied. \<not> field_ok sch kv)"
  using with_defaults_bad_field [OF assms, of supplied]
  by (simp add: create_def Let_def list_ex_iff)

lemma create_cases:
  "create env sch supplied = Inl ValidationError
   \<or> create env sch supplied = Inr (with_defaults env sch supplied)"
  by (simp add: create_def Let_def)

lemma MediaEntry_created_never_absent:
  "map_of (with_defaults env MediaEntry_schema supplied) ''created'' \<noteq> None"
  by (simp add: map_of_with_defaults MediaEntry_schema_def split: option.splits)

text \<open>
  C6. Creating a MediaEntry fails with ValidationError exactly when one of the required
  fields uploader, created, media_type, slug is absent from the record (it was not
  supplied and has no default), or a supplied field is mistyped or is not a field of
  the schema. Otherwise creation succeeds, with the supplied fields and the defaults
  of the others. Of the four required fields, created has a default: the ones that
  can be absent are those of uploader, media_type and slug that were not supplied.
\<close>

theorem MediaEntry_creation_fails_iff:
  "(create env MediaEntry_schema supplied = Inl ValidationError \<longleftrightarrow>
      (\<exists>r\<in>set [''uploader'', ''created'', ''media_type'', ''slug''].
          map_of (with_defaults env MediaEntry_schema supplied) r = None)
    \<or> (\<exists>kv\<in>set supplied. \<not> field_ok MediaEntry_schema kv))
   \<and> (create env MediaEntry_schema supplied \<noteq> Inl ValidationError \<longrightarrow>
        create env MediaEntry_schema supplied
          = Inr (with_defaults env MediaEntry_schema supplied))
   \<and> ((\<exists>r\<in>set [''uploader'', ''created'', ''media_type'', ''slug''].
          map_of (with_defaults env MediaEntry_schema supplied) r = None) \<longleftrightarrow>
        map_of supplied ''uploader'' = None \<or> map_of supplied ''media_type'' = None
        \<or> map_of supplied ''slug'' = None)"
proof -
  have r: "required_fields MediaEntry_schema
             = [''uploader'', ''created'', ''media_type'', ''slug'']"
    by (simp add: MediaEntry_schema_def)
  have a: "create env MediaEntry_schema supplied = Inl ValidationError \<longleftrightarrow>
      (\<exists>r\<in>set [''uploader'', ''created'', ''media_type'', ''slug''].
          map_of (with_defaults env MediaEntry_schema supplied) r = None)
    \<or> (\<exists>kv\<in>set supplied. \<not> field_ok MediaEntry_schema kv)"
    using create_fails_iff [OF MediaEntry_defaults_ok, of env supplied] unfolding r .
  have b: "create env MediaEntry_schema supplied \<noteq> Inl ValidationError \<longrightarrow>
        create env MediaEntry_schema supplied
          = Inr (with_defaults env MediaEntry_schema supplied)"
    using create_cases [of env MediaEntry_schema supplied] by blast
  have c: "(\<exists>r\<in>set [''uploader'', ''created'', ''media_type'', ''slug''].
          map_of (with_defaults env MediaEntry_schema supplied) r = None) \<longleftrightarrow>
        map_of supplied ''uploader'' = None \<or> map_of supplied ''media_type'' = None
        \<or> map_of supplied ''slug'' = None"
    by (auto simp: map_of_with_defaults MediaEntry_schema_def split: option.splits)
  from a b c show ?thesis by (intro conjI)
qed

theorem MediaEntry_creation_fails_iff_witness:
  "create sample_providers MediaEntry_schema
      [(''uploader'', V_ObjectId 10), (''media_type'', V_unicode ''image'')]
     = Inl ValidationError
   \<and> map_of (with_defaults sample_providers MediaEntry_schema
        [(''uploader'', V_ObjectId 10), (''media_type'', V_unicode ''image'')]) ''slug'' = None
   \<and> create sample_providers MediaEntry_schema
        [(''uploader'', V_ObjectId 10), (''media_type'', V_unicode ''image''),
         (''slug'', V_unicode ''one''), (''tags'', V_list [V_unicode ''cat''])]
     = Inr [(''uploader'', V_ObjectId 10), (''media_type'', V_unicode ''image''),
            (''slug'', V_unicode ''one''), (''tags'', V_list [V_unicode ''cat'']),
            (''created'', V_datetime 1000), (''state'', V_unicode ''unprocessed'')]
   \<and> create sample_providers MediaEntry_schema
        [(''uploader'', V_ObjectId 10), (''media_type'', V_unicode ''image''),
         (''slug'', V_int 1)]
     = Inl ValidationError
   \<and> create sample_providers MediaEntry_schema
        [(''uploader'', V_ObjectId 10), (''media_type'', V_unicode ''image''),
         (''slug'', V_unicode ''one''), (''colour'', V_unicode ''red'')]
     = Inl ValidationError"
proof -
  have a: "map_of (with_defaults sample_providers MediaEntry_schema
        [(''uploader'', V_ObjectId 10), (''media_type'', V_unicode ''image'')]) ''slug'' = None"
    by (simp add: with_defaults_def MediaEntry_schema_def)
  have b: "create sample_providers MediaEntry_schema
        [(''uploader'', V_ObjectId 10), (''media_type'', V_unicode ''image''),
         (''slug'', V_unicode ''one''), (''tags'', V_list [V_unicode ''cat''])]
     = Inr [(''uploader'', V_ObjectId 10), (''media_type'', V_unicode ''image''),
            (''slug'', V_unicode ''one''), (''tags'', V_list [V_unicode ''cat'']),
            (''created'', V_datetime 1000), (''state'', V_unicode ''unprocessed'')]"
    by (simp add: create_def Let_def with_defaults_def field_ok_def MediaEntry_schema_def
        sample_providers_def)
  have c: "create sample_providers MediaEntry_schema
        [(''uploader'', V_ObjectId 10), (''media_type'', V_unicode ''image''),
         (''slug'', V_int 1)]
     = Inl ValidationError"
    by (simp add: create_def Let_def with_defaults_def field_ok_def MediaEntry_schema_def
        sample_providers_def)
  have d: "create sample_providers MediaEntry_schema
        [(''uploader'', V_ObjectId 10), (''media_type'', V_unicode ''image''),
         (''slug'', V_unicode ''one''), (''colour'', V_unicode ''red'')]
     = Inl ValidationError"
    by (simp add: create_def Let_def with_defaults_def field_ok_def MediaEntry_schema_def
        sample_providers_def)
  show ?thesis
    using a b c d
      MediaEntry_creation_fails_iff [of sample_providers
        "[(''uploader'', V_ObjectId 10), (''media_type'', V_unicode ''image'')]"]
    by simp
qed

text \<open>
  C7. For every field set whose fields are fields of the User schema with values of
  their types, and which supplies username, pw_hash and email, creation succeeds; the
  record keeps every supplied field, and each of status, email_verified, is_admin,
  created and verification_key that was not supplied has its default: the text
  needs_email_verification, false, false, the clock's reading at creation, and the
  token drawn at creation.
\<close>

theorem User_creation_defaults:
  assumes ok: "\<forall>kv\<in>set supplied. field_ok User_schema kv"
    and req: "map_of supplied ''username'' \<noteq> None" "map_of supplied ''pw_hash'' \<noteq> None"
             "map_of supplied ''email'' \<noteq> None"
  shows "\<exists>doc. create env User_schema supplied = Inr doc
     \<and> (\<forall>k v. map_of supplied k = Some v \<longrightarrow> map_of doc k = Some v)
     \<and> (map_of supplied ''status'' = None \<longrightarrow>
          map_of doc ''status'' = Some (V_unicode ''needs_email_verification''))
     \<and> (map_of supplied ''email_verified'' = None \<longrightarrow>
          map_of doc ''email_verified'' = Some (V_bool False))
     \<and> (map_of supplied ''is_admin'' = None \<longrightarrow> map_of doc ''is_admin'' = Some (V_bool False))
     \<and> (map_of supplied ''created'' = None \<longrightarrow>
          map_of doc ''created'' = Some (V_datetime (now env)))
     \<and> (map_of supplied ''verification_key'' = None \<longrightarrow>
          map_of doc ''verification_key'' = Some (V_unicode (uuid4 env)))"
proof -
  let ?doc = "with_defaults env User_schema supplied"
  have present: "\<not> (\<exists>r\<in>set (required_fields User_schema). map_of ?doc r = None)"
    using req by (auto simp: map_of_with_defaults User_schema_def split: option.splits)
  have "create env User_schema supplied \<noteq> Inl ValidationError"
    using create_fails_iff [OF User_defaults_ok, of env supplied] present ok by blast
  then have c: "create env User_schema supplied = Inr ?doc"
    using create_cases [of env User_schema supplied] by blast
  have d: "map_of supplied k = None \<Longrightarrow>
           map_of ?doc k = map_option (default_of env) (map_of (default_values User_schema) k)"
    for k
    by (simp add: map_of_with_defaults)
  have s: "\<forall>k v. map_of supplied k = Some v \<longrightarrow> map_of ?doc k = Some v"
    by (simp add: map_of_with_defaults)
  have dv:
    "map_of (default_values User_schema) ''status''
       = Some (Constant (V_unicode ''needs_email_verification''))"
    "map_of (default_values User_schema) ''email_verified'' = Some (Constant (V_bool False))"
    "map_of (default_values User_schema) ''is_admin'' = Some (Constant (V_bool False))"
    "map_of (default_values User_schema) ''created'' = Some utcnow"
    "map_of (default_values User_schema) ''verification_key'' = Some uuid4_unicode"
    by (simp_all add: User_schema_def)
  have f:
    "map_of supplied ''status'' = None \<longrightarrow>
       map_of ?doc ''status'' = Some (V_unicode ''needs_email_verification'')"
    "map_of supplied ''email_verified'' = None \<longrightarrow>
       map_of ?doc ''email_verified'' = Some (V_bool False)"
    "map_of supplied ''is_admin'' = None \<longrightarrow> map_of ?doc ''is_admin'' = Some (V_bool False)"
    "map_of supplied ''created'' = None \<longrightarrow>
       map_of ?doc ''created'' = Some (V_datetime (now env))"
    "map_of supplied ''verification_key'' = None \<longrightarrow>
       map_of ?doc ''verification_key'' = Some (V_unicode (uuid4 env))"
    by (simp_all add: d dv)
  show ?thesis
    by (rule exI [of _ ?doc]) (intro conjI c s f)
qed

theorem User_creation_defaults_witness:
  "list_all (field_ok User_schema)
      [(''username'', V_unicode ''alice''), (''pw_hash'', V_unicode ''hash of secret''),
       (''email'', V_unicode ''alice@example.org'')]
   \<and> create sample_providers User_schema
      [(''username'', V_unicode ''alice''), (''pw_hash'', V_unicode ''hash of secret''),
       (''email'', V_unicode ''alice@example.org'')]
     = Inr [(''username'', V_unicode ''alice''), (''pw_hash'', V_unicode ''hash of secret''),
            (''email'', V_unicode ''alice@example.org''),
            (''created'', V_datetime 1000),
            (''email_verified'', V_bool False),
            (''status'', V_unicode ''needs_email_verification''),
            (''verification_key'', V_unicode ''6fa459ea-ee8a-3ca4-894e-db77e160355e''),
            (''is_admin'', V_bool False)]"
proof -
  have ok: "\<forall>kv\<in>set [(''username'', V_unicode ''alice''),
       (''pw_hash'', V_unicode ''hash of secret''),
       (''email'', V_unicode ''alice@example.org'')]. field_ok User_schema kv"
    by (simp add: field_ok_def User_schema_def)
  have c: "create sample_providers User_schema
      [(''username'', V_unicode ''alice''), (''pw_hash'', V_unicode ''hash of secret''),
       (''email'', V_unicode ''alice@example.org'')]
     = Inr [(''username'', V_unicode ''alice''), (''pw_hash'', V_unicode ''hash of secret''),
            (''email'', V_unicode ''alice@example.org''),
            (''created'', V_datetime 1000),
            (''email_verified'', V_bool False),
            (''status'', V_unicode ''needs_email_verification''),
            (''verification_key'', V_unicode ''6fa459ea-ee8a-3ca4-894e-db77e160355e''),
            (''is_admin'', V_bool False)]"
    by (simp add: create_def Let_def with_defaults_def field_ok_def User_schema_def
        sample_providers_def)
  show ?thesis
    using ok c User_creation_defaults [OF ok, of sample_providers]
    by (simp add: list_all_iff)
qed

end
